theory Spec2Isabelle
  imports Main "HOL-Library.Word"
begin

unbundle bit_operations_syntax

section \<open>Values shared with go-fuse and the common package\<close>

type_synonym byte = "8 word"
type_synonym int64 = "64 word"
type_synonym uint32 = "32 word"
type_synonym uint64 = "64 word"

text \<open>
  The values of \<open>syscall.Errno\<close> that the adapter returns; \<open>OK\<close> is \<open>fs.OK\<close>.
\<close>

datatype Errno = OK | ENOENT | EIO | EINVAL | EROFS

text \<open>
  A Go call either returns or panics (a slice bound or an index out of range, a negative
  length given to \<open>make\<close>).
\<close>

datatype 'a outcome = Panic | Return 'a

text \<open>
  Modelled from the spec: the error kinds of section 7 that a storage backend can hand to
  the adapter, and the miss of the content cache (section 4.4). The Go \<open>error\<close> values
  themselves are created in packages that are not part of the two source files.
\<close>

datatype error = CorruptArchive | IOError | BackendError | CacheMiss

subsection \<open>Byte slices\<close>

text \<open>
  A Go slice is a window on a backing array: \<open>elems\<close> are the \<open>len\<close> elements of the
  slice, \<open>spare\<close> the elements of the backing array between \<open>len\<close> and \<open>cap\<close>.
\<close>

record slice =
  elems :: "byte list"
  spare :: "byte list"

definition len :: "slice \<Rightarrow> nat" where
  "len d = length (elems d)"

definition cap :: "slice \<Rightarrow> nat" where
  "cap d = length (elems d) + length (spare d)"

text \<open>
  \<open>make([]byte, k)\<close>: panics when \<open>k\<close> is negative. The limit on what the runtime can
  allocate is not modelled.
\<close>

definition make_bytes :: "int \<Rightarrow> slice option" where
  "make_bytes k =
     (if k < 0 then None else Some \<lparr>elems = replicate (nat k) 0, spare = []\<rparr>)"

text \<open>\<open>d[:k]\<close>: the bound is checked against the capacity, not the length.\<close>

definition slice_upto :: "slice \<Rightarrow> int \<Rightarrow> slice option" where
  "slice_upto d k =
     (if 0 \<le> k \<and> nat k \<le> cap d
      then Some \<lparr>elems = take (nat k) (elems d @ spare d),
                 spare = drop (nat k) (elems d @ spare d)\<rparr>
      else None)"

text \<open>\<open>d[k] = v\<close>: the index is checked against the length.\<close>

definition store_at :: "slice \<Rightarrow> int \<Rightarrow> byte \<Rightarrow> slice option" where
  "store_at d k v =
     (if 0 \<le> k \<and> nat k < len d then Some (d\<lparr>elems := (elems d)[nat k := v]\<rparr>) else None)"

text \<open>\<open>for i := range dest { dest[i] = 0 }\<close>\<close>

fun zero_fill :: "byte list \<Rightarrow> byte list" where
  "zero_fill [] = []"
| "zero_fill (b # bs) = 0 # zero_fill bs"

text \<open>
  The builtin \<open>copy(dst, src)\<close> on the elements: the first \<open>min (len dst) (len src)\<close>
  elements of \<open>dst\<close> are replaced.
\<close>

definition copy_bytes :: "byte list \<Rightarrow> byte list \<Rightarrow> byte list" where
  "copy_bytes dst src = take (length dst) src @ drop (length src) dst"

definition copy_into :: "slice \<Rightarrow> byte list \<Rightarrow> slice" where
  "copy_into d src = d\<lparr>elems := copy_bytes (elems d) src\<rparr>"

text \<open>
  A callee that is handed a slice can change the backing array and nothing else: the
  callee reports the bytes \<open>ws\<close> it left in the array, counted from index 0 of the slice,
  and the slice keeps its length and its capacity.
\<close>

definition write_back :: "slice \<Rightarrow> byte list \<Rightarrow> slice" where
  "write_back d ws =
     (let a = copy_bytes (elems d @ spare d) ws
      in \<lparr>elems = take (length (elems d)) a, spare = drop (length (elems d)) a\<rparr>)"

text \<open>\<open>fuse.ReadResultData(b)\<close>: the reply carries the elements of \<open>b\<close>.\<close>

definition ReadResultData :: "slice \<Rightarrow> byte list" where
  "ReadResultData b = elems b"

text \<open>\<open>[]byte(s)\<close>: the bytes of a Go string, unchanged.\<close>

definition bytes_of_string :: "string \<Rightarrow> byte list" where
  "bytes_of_string t = map (\<lambda>c. of_nat (of_char c)) t"

text \<open>\<open>string(b)\<close>: the way back.\<close>

definition string_of_bytes :: "byte list \<Rightarrow> string" where
  "string_of_bytes bs = map (\<lambda>b. char_of (unat b)) bs"

subsection \<open>Nodes\<close>

text \<open>
  The fields of \<open>fuse.Attr\<close> that \<open>Getattr\<close> copies; \<open>Owner\<close> is the pair of uid and
  gid.
\<close>

record fuse_Attr =
  Ino :: uint64
  Size :: uint64
  Blocks :: uint64
  Atime :: uint64
  Mtime :: uint64
  Ctime :: uint64
  Mode :: uint32
  Nlink :: uint32
  Owner :: "uint32 \<times> uint32"

text \<open>
  Modelled from the spec: \<open>common.ClipNode\<close> and \<open>common.ClipNodeType\<close> are declared
  outside the two source files. Section 3.2 gives the node its path, its type (one of
  File, Directory, SymLink), its attributes, its byte range in the content region
  (\<open>dataOffset\<close>, \<open>dataLen\<close>), its link target and its content hash; the field names are
  the ones \<open>fsnode.go\<close> reads, and \<open>DataLen\<close> is read there through \<open>int64(...)\<close>.
\<close>

datatype ClipNodeType = DirNode | FileNode | SymLinkNode

record ClipNode =
  NodeType :: ClipNodeType
  Path :: string
  Attr :: fuse_Attr
  Target :: string
  ContentHash :: string
  DataOffset :: int64
  DataLen :: int64

record FSNode =
  clipNode :: ClipNode
  attr :: fuse_Attr
  supportsMmap :: bool

text \<open>
  \<open>fs.StableAttr\<close>, and an inode of go-fuse as far as the adapter can tell two inodes
  apart: the operations it carries and its stable attributes. Making one is the business
  of go-fuse's \<open>NewInode\<close>, which is a parameter of \<open>Lookup\<close> below.
\<close>

record StableAttr =
  stable_Mode :: uint32
  stable_Ino :: uint64

datatype Inode = Inode (inode_ops: FSNode) (inode_stable: StableAttr)

record lookupCacheEntry =
  entry_inode :: Inode
  entry_attr :: fuse_Attr

record EntryOut =
  out_Attr :: fuse_Attr

subsection \<open>The filesystem and its collaborators\<close>

text \<open>
  The storage backend (\<open>n.filesystem.s\<close>) and the content cache are interfaces whose
  implementations live outside the two source files, so they are parameters of the model.
  \<open>ReadFile node dest off\<close> gives the bytes it left in \<open>dest\<close>, the count \<open>nRead\<close>
  and the error, \<open>None\<close> for \<open>nil\<close>. \<open>MetadataGet\<close> is \<open>Metadata().Get\<close>, \<open>None\<close>
  for \<open>nil\<close>. \<open>GetContent hash off length\<close> gives the content or the error. The
  lookup cache is the map that the filesystem was constructed with; its entries are not
  \<open>nil\<close>.
\<close>

record Storage =
  ReadFile :: "ClipNode \<Rightarrow> slice \<Rightarrow> int64 \<Rightarrow> byte list \<times> int \<times> error option"
  MetadataGet :: "string \<Rightarrow> ClipNode option"
  CachedLocally :: bool

record ContentCache =
  GetContent :: "string \<Rightarrow> int64 \<Rightarrow> int64 \<Rightarrow> error + byte list"

record ClipFileSystem =
  storage :: Storage
  verbose :: bool
  lookupCache :: "string \<rightharpoonup> lookupCacheEntry"
  contentCache :: ContentCache
  contentCacheAvailable :: bool

text \<open>
  The calls a request makes on its collaborators, in the order the code makes them. The
  goroutine that runs \<open>CacheFile\<close> is recorded when it is started.
\<close>

datatype Call =
    GetContentCall string int64 int64
  | ReadFileCall ClipNode slice int64
  | CacheFileSpawn FSNode
  | LookupCacheGet string
  | LookupCachePut string
  | MetadataGetCall string
  | NewInodeCall FSNode StableAttr

section \<open>FSNode.Read\<close>

record ReadState =
  dest_after :: slice
  calls :: "Call list"
  ret :: "(byte list option \<times> Errno) outcome"

text \<open>\<open>return fuse.ReadResultData(dest[:k]), fs.OK\<close>, or the panic of the slice expression.\<close>

definition reply :: "slice option \<Rightarrow> (byte list option \<times> Errno) outcome" where
  "reply r = (case r of None \<Rightarrow> Panic | Some b \<Rightarrow> Return (Some (ReadResultData b), OK))"

definition Read :: "ClipFileSystem \<Rightarrow> FSNode \<Rightarrow> slice \<Rightarrow> int64 \<Rightarrow> ReadState" where
  "Read fs n dest off =
     (let node = clipNode n in
      if sint (DataLen node) \<le> sint off then
        (let dest' = dest\<lparr>elems := zero_fill (elems dest)\<rparr>
         in \<lparr>dest_after = dest', calls = [], ret = Return (Some (ReadResultData dest'), OK)\<rparr>)
      else
        (let length' = (of_nat (len dest) :: int64) in
         if DataLen node = 0 then
           \<lparr>dest_after = dest, calls = [], ret = reply (slice_upto dest 0)\<rparr>
         else if contentCacheAvailable fs \<and> ContentHash node \<noteq> [] \<and>
                 \<not> CachedLocally (storage fs) then
           (case GetContent (contentCache fs) (ContentHash node) off length' of
              Inr content \<Rightarrow>
                (let dest' = copy_into dest content
                 in \<lparr>dest_after = dest',
                     calls = [GetContentCall (ContentHash node) off length'],
                     ret = reply (slice_upto dest' (int (length content)))\<rparr>)
            | Inl cache_err \<Rightarrow>
                (case ReadFile (storage fs) node dest off of
                   (ws, nRead, Some err) \<Rightarrow>
                     \<lparr>dest_after = write_back dest ws,
                      calls = [GetContentCall (ContentHash node) off length',
                               ReadFileCall node dest off],
                      ret = Return (None, EIO)\<rparr>
                 | (ws, nRead, None) \<Rightarrow>
                     \<lparr>dest_after = write_back dest ws,
                      calls = [GetContentCall (ContentHash node) off length',
                               ReadFileCall node dest off, CacheFileSpawn n],
                      ret = reply (slice_upto (write_back dest ws) nRead)\<rparr>))
         else
           (case ReadFile (storage fs) node dest off of
              (ws, nRead, Some err) \<Rightarrow>
                \<lparr>dest_after = write_back dest ws,
                 calls = [ReadFileCall node dest off],
                 ret = Return (None, EIO)\<rparr>
            | (ws, nRead, None) \<Rightarrow>
                \<lparr>dest_after = write_back dest ws,
                 calls = [ReadFileCall node dest off],
                 ret = reply (slice_upto (write_back dest ws) nRead)\<rparr>)))"

text \<open>The number of bytes a read hands to the kernel, when it returns data.\<close>

definition bytes_returned :: "ReadState \<Rightarrow> nat option" where
  "bytes_returned r =
     (case ret r of Return (Some bs, e) \<Rightarrow> Some (length bs) | _ \<Rightarrow> None)"

text \<open>A returned errno other than \<open>fs.OK\<close>.\<close>

definition error_errno :: "(byte list option \<times> Errno) outcome \<Rightarrow> bool" where
  "error_errno r = (case r of Panic \<Rightarrow> False | Return (x, e) \<Rightarrow> e \<noteq> OK)"

text \<open>The three conditions under which \<open>Read\<close> turns to the content cache.\<close>

definition use_content_cache :: "ClipFileSystem \<Rightarrow> ClipNode \<Rightarrow> bool" where
  "use_content_cache fs node =
     (contentCacheAvailable fs \<and> ContentHash node \<noteq> [] \<and> \<not> CachedLocally (storage fs))"

text \<open>The calls that reach the content cache: a lookup in it, and the task that fills it.\<close>

fun touches_content_cache :: "Call \<Rightarrow> bool" where
  "touches_content_cache (GetContentCall h off l) = True"
| "touches_content_cache (CacheFileSpawn n) = True"
| "touches_content_cache c = False"

section \<open>FSNode.Readlink\<close>

definition Readlink :: "FSNode \<Rightarrow> byte list option \<times> Errno" where
  "Readlink n =
     (if NodeType (clipNode n) \<noteq> SymLinkNode then (None, EINVAL)
      else (let symlinkTarget = Target (clipNode n)
            in (Some (bytes_of_string symlinkTarget), OK)))"

section \<open>The operations that would write\<close>

text \<open>
  Each operation is given the filesystem, the node it is called on and the structures its
  pointer arguments refer to, and gives them back with what the Go function returns. The
  log line that \<open>n.log\<close> prints when the filesystem is verbose is output only and is left
  out.
\<close>

definition Create ::
  "ClipFileSystem \<Rightarrow> FSNode \<Rightarrow> string \<Rightarrow> uint32 \<Rightarrow> uint32 \<Rightarrow> EntryOut \<Rightarrow>
   ClipFileSystem \<times> FSNode \<times> EntryOut \<times> (Inode option \<times> unit option \<times> uint32 \<times> Errno)" where
  "Create fs n name flags mode out = (fs, n, out, (None, None, 0, EROFS))"

definition Mkdir ::
  "ClipFileSystem \<Rightarrow> FSNode \<Rightarrow> string \<Rightarrow> uint32 \<Rightarrow> EntryOut \<Rightarrow>
   ClipFileSystem \<times> FSNode \<times> EntryOut \<times> (Inode option \<times> Errno)" where
  "Mkdir fs n name mode out = (fs, n, out, (None, EROFS))"

definition Rmdir ::
  "ClipFileSystem \<Rightarrow> FSNode \<Rightarrow> string \<Rightarrow> ClipFileSystem \<times> FSNode \<times> Errno" where
  "Rmdir fs n name = (fs, n, EROFS)"

definition Unlink ::
  "ClipFileSystem \<Rightarrow> FSNode \<Rightarrow> string \<Rightarrow> ClipFileSystem \<times> FSNode \<times> Errno" where
  "Unlink fs n name = (fs, n, EROFS)"

definition Rename ::
  "ClipFileSystem \<Rightarrow> FSNode \<Rightarrow> string \<Rightarrow> FSNode \<Rightarrow> string \<Rightarrow> uint32 \<Rightarrow>
   ClipFileSystem \<times> FSNode \<times> FSNode \<times> Errno" where
  "Rename fs n oldName newParent newName flags = (fs, n, newParent, EROFS)"

section \<open>FSNode.Lookup\<close>

record LookupState =
  fs_after :: ClipFileSystem
  out_after :: EntryOut
  lookup_calls :: "Call list"
  lookup_ret :: "(Inode option \<times> Errno) outcome"

text \<open>
  \<open>path_Join\<close> stands for \<open>path.Join\<close> of Go's standard library, on two elements.
  \<open>NewInode\<close> stands for \<open>n.NewInode\<close> of go-fuse, given the operations and the stable
  attributes of the child: it returns an inode (not always a fresh one) or panics, as
  go-fuse does on an inode number it reserves. A panic leaves \<open>Lookup\<close> after
  \<open>out.Attr\<close> has been set and before the cache is written. The read lock and the write
  lock around the two accesses to the lookup cache do not change what one request
  computes.
\<close>

definition Lookup ::
  "(string \<Rightarrow> string \<Rightarrow> string) \<Rightarrow> (FSNode \<Rightarrow> StableAttr \<Rightarrow> Inode outcome) \<Rightarrow>
   ClipFileSystem \<Rightarrow> FSNode \<Rightarrow> string \<Rightarrow> EntryOut \<Rightarrow> LookupState" where
  "Lookup path_Join NewInode fs n name out =
     (let childPath = path_Join (Path (clipNode n)) name in
      case lookupCache fs childPath of
        Some entry \<Rightarrow>
          \<lparr>fs_after = fs, out_after = out\<lparr>out_Attr := entry_attr entry\<rparr>,
           lookup_calls = [LookupCacheGet childPath],
           lookup_ret = Return (Some (entry_inode entry), OK)\<rparr>
      | None \<Rightarrow>
          (case MetadataGet (storage fs) childPath of
             None \<Rightarrow>
               \<lparr>fs_after = fs, out_after = out,
                lookup_calls = [LookupCacheGet childPath, MetadataGetCall childPath],
                lookup_ret = Return (None, ENOENT)\<rparr>
           | Some child \<Rightarrow>
               (let out' = out\<lparr>out_Attr := Attr child\<rparr>;
                    ops = \<lparr>clipNode = child, attr = Attr child, supportsMmap = False\<rparr>;
                    sattr = \<lparr>stable_Mode = Mode (Attr child),
                             stable_Ino = Ino (Attr child)\<rparr>
                in case NewInode ops sattr of
                     Panic \<Rightarrow>
                       \<lparr>fs_after = fs, out_after = out',
                        lookup_calls = [LookupCacheGet childPath, MetadataGetCall childPath,
                                        NewInodeCall ops sattr],
                        lookup_ret = Panic\<rparr>
                   | Return childInode \<Rightarrow>
                       \<lparr>fs_after = fs\<lparr>lookupCache := (lookupCache fs)
                                      (childPath \<mapsto> \<lparr>entry_inode = childInode,
                                                     entry_attr = Attr child\<rparr>)\<rparr>,
                        out_after = out',
                        lookup_calls = [LookupCacheGet childPath, MetadataGetCall childPath,
                                        NewInodeCall ops sattr, LookupCachePut childPath],
                        lookup_ret = Return (Some childInode, OK)\<rparr>)))"

text \<open>The errno a lookup returns, when it returns.\<close>

definition lookup_errno :: "LookupState \<Rightarrow> Errno option" where
  "lookup_errno r = (case lookup_ret r of Panic \<Rightarrow> None | Return (i, e) \<Rightarrow> Some e)"

section \<open>FSNode.Open\<close>

text \<open>
  The constants of the \<open>syscall\<close> package on Linux and of go-fuse:
  \<open>MAP_SHARED = 0x1\<close>, \<open>MAP_PRIVATE = 0x2\<close>, \<open>FOPEN_DIRECT_IO = 1 << 0\<close>.
\<close>

definition MAP_SHARED :: uint32 where
  "MAP_SHARED = 1"

definition MAP_PRIVATE :: uint32 where
  "MAP_PRIVATE = 2"

definition FOPEN_DIRECT_IO :: uint32 where
  "FOPEN_DIRECT_IO = push_bit 0 1"

definition Open :: "FSNode \<Rightarrow> uint32 \<Rightarrow> unit option \<times> uint32 \<times> Errno" where
  "Open n flags =
     (let fuseFlags = (0 :: uint32);
          fuseFlags = (if flags AND MAP_PRIVATE \<noteq> 0 \<or> flags AND MAP_SHARED \<noteq> 0
                       then fuseFlags OR FOPEN_DIRECT_IO else fuseFlags)
      in (None, fuseFlags, OK))"

section \<open>FSNode.Mmap\<close>

text \<open>
  \<open>paddedBuf[:DataLen]\<close> is a window on the padded buffer: what the backend writes
  through it lands in the buffer. The buffer is a local variable; the function returns a
  boolean and an error.
\<close>

definition Mmap ::
  "ClipFileSystem \<Rightarrow> FSNode \<Rightarrow> int64 \<Rightarrow> int64 \<Rightarrow> uint32 \<Rightarrow> (bool \<times> error option) outcome" where
  "Mmap fs n off sz flags =
     (let node = clipNode n in
      if sint (DataLen node) < sint (off + sz) then
        (let paddedSize = off + sz in
         case make_bytes (sint paddedSize) of
           None \<Rightarrow> Panic
         | Some paddedBuf \<Rightarrow>
             (case slice_upto paddedBuf (sint (DataLen node)) of
                None \<Rightarrow> Panic
              | Some window \<Rightarrow>
                  (case ReadFile (storage fs) node window 0 of
                     (ws, nRead, Some err) \<Rightarrow> Return (False, Some err)
                   | (ws, nRead, None) \<Rightarrow>
                       (let window' = write_back window ws;
                            paddedBuf' = \<lparr>elems = elems window' @ spare window', spare = []\<rparr>
                        in case store_at paddedBuf' (sint (DataLen node)) 0 of
                             None \<Rightarrow> Panic
                           | Some paddedBuf'' \<Rightarrow> Return (True, None)))))
      else Return (False, None))"

section \<open>StoreS3\<close>

record StoreS3Options =
  ArchivePath :: string
  OutputFile :: string
  Bucket :: string
  Key :: string
  CachePath :: string

record S3StorageInfo =
  s3_Bucket :: string
  s3_Key :: string
  s3_Region :: string

text \<open>\<open>os.Getenv\<close>: the value of the variable, the empty string when it is not set.\<close>

definition Getenv :: "(string \<rightharpoonup> string) \<Rightarrow> string \<Rightarrow> string" where
  "Getenv env name = (case env name of None \<Rightarrow> [] | Some v \<Rightarrow> v)"

text \<open>
  \<open>filepath_Base\<close> stands for \<open>filepath.Base\<close> of Go's standard library;
  \<open>NewRClipArchiver\<close> and \<open>Create\<close> are the remote archiver of the archive package,
  which is not among the source files. The function returns the error, \<open>None\<close> for
  \<open>nil\<close>.
\<close>

definition StoreS3 ::
  "(string \<Rightarrow> string) \<Rightarrow> (string \<rightharpoonup> string) \<Rightarrow> (S3StorageInfo \<Rightarrow> error + 'a) \<Rightarrow>
   ('a \<Rightarrow> string \<Rightarrow> string \<Rightarrow> error option) \<Rightarrow> StoreS3Options \<Rightarrow> error option" where
  "StoreS3 filepath_Base env NewRClipArchiver RCreate storeS3Opts =
     (let region = Getenv env ''AWS_REGION'';
          storeS3Opts = (if Key storeS3Opts = []
                         then storeS3Opts\<lparr>Key := filepath_Base (ArchivePath storeS3Opts)\<rparr>
                         else storeS3Opts);
          storageInfo = \<lparr>s3_Bucket = Bucket storeS3Opts, s3_Key = Key storeS3Opts,
                         s3_Region = region\<rparr>
      in case NewRClipArchiver storageInfo of
           Inl err \<Rightarrow> Some err
         | Inr a \<Rightarrow>
             (case RCreate a (ArchivePath storeS3Opts) (OutputFile storeS3Opts) of
                Some err \<Rightarrow> Some err
              | None \<Rightarrow> None))"

section \<open>The local backend\<close>

text \<open>
  Modelled from the spec: the storage package is not among the source files. Section 4.3
  says that \<open>ReadFile(node, dest, offset)\<close> reads up to \<open>len(dest)\<close> bytes of the file
  starting at \<open>offset\<close>, that a read beyond \<open>dataLen\<close> gives zero bytes read and no
  error, and that an I/O failure gives \<open>IOError\<close>; section 4.3.1 says that the local
  backend computes \<open>archiveOffset = contentRegionStart + node.dataOffset + offset\<close>,
  clamps the length to \<open>node.dataLen - offset\<close> and issues a positional read, and that
  its \<open>CachedLocally\<close> is true. A positional read that the archive's bytes cannot
  satisfy in full is the I/O failure.
\<close>

record LocalArchive =
  archive :: "byte list"
  contentRegionStart :: nat

definition pread :: "byte list \<Rightarrow> int \<Rightarrow> int \<Rightarrow> byte list option" where
  "pread a pos k =
     (if 0 \<le> pos \<and> 0 \<le> k \<and> nat pos + nat k \<le> length a
      then Some (take (nat k) (drop (nat pos) a)) else None)"

definition local_ReadFile ::
  "LocalArchive \<Rightarrow> ClipNode \<Rightarrow> slice \<Rightarrow> int64 \<Rightarrow> byte list \<times> int \<times> error option" where
  "local_ReadFile a node dest off =
     (if sint (DataLen node) \<le> sint off then ([], 0, None)
      else
        (let archiveOffset = int (contentRegionStart a) + sint (DataOffset node) + sint off;
             k = min (int (len dest)) (sint (DataLen node) - sint off)
         in case pread (archive a) archiveOffset k of
              None \<Rightarrow> ([], 0, Some IOError)
            | Some bs \<Rightarrow> (bs, k, None)))"

definition LocalStorage :: "LocalArchive \<Rightarrow> (string \<Rightarrow> ClipNode option) \<Rightarrow> Storage" where
  "LocalStorage a idx =
     \<lparr>ReadFile = local_ReadFile a, MetadataGet = idx, CachedLocally = True\<rparr>"

section \<open>Example values\<close>

definition ex_attr :: fuse_Attr where
  "ex_attr = \<lparr>Ino = 7, Size = 6, Blocks = 1, Atime = 0, Mtime = 0, Ctime = 0,
              Mode = 0x81A4, Nlink = 1, Owner = (0, 0)\<rparr>"

text \<open>The file \<open>/a.txt\<close> of the spec's second scenario, holding \<open>hello\<close> and a newline.\<close>

definition ex_file :: ClipNode where
  "ex_file = \<lparr>NodeType = FileNode, Path = ''/a.txt'', Attr = ex_attr, Target = [],
              ContentHash = ''abc123'', DataOffset = 0, DataLen = 6\<rparr>"

definition ex_fsnode :: FSNode where
  "ex_fsnode = \<lparr>clipNode = ex_file, attr = ex_attr, supportsMmap = True\<rparr>"

definition hello :: "byte list" where
  "hello = [104, 101, 108, 108, 111, 10]"

definition ex_storage :: Storage where
  "ex_storage = \<lparr>ReadFile = (\<lambda>node dest off. (hello, 6, None)),
                 MetadataGet = (\<lambda>p. if p = ''/a.txt'' then Some ex_file else None),
                 CachedLocally = True\<rparr>"

definition ex_cache :: ContentCache where
  "ex_cache = \<lparr>GetContent = (\<lambda>h off l. Inl CacheMiss)\<rparr>"

definition ex_fs :: ClipFileSystem where
  "ex_fs = \<lparr>storage = ex_storage, verbose = False, lookupCache = Map.empty,
            contentCache = ex_cache, contentCacheAvailable = False\<rparr>"

definition ex_dest :: slice where
  "ex_dest = \<lparr>elems = [1, 2, 3], spare = []\<rparr>"

definition ex_archive :: LocalArchive where
  "ex_archive = \<lparr>archive = [67, 76, 73, 80] @ hello @ [9, 9], contentRegionStart = 4\<rparr>"

definition ex_local_fs :: ClipFileSystem where
  "ex_local_fs = \<lparr>storage = LocalStorage ex_archive (\<lambda>p. None), verbose = False,
                  lookupCache = Map.empty, contentCache = ex_cache,
                  contentCacheAvailable = True\<rparr>"

definition failing_storage :: Storage where
  "failing_storage = \<lparr>ReadFile = (\<lambda>node dest off. ([], 0, Some IOError)),
                      MetadataGet = (\<lambda>p. None), CachedLocally = False\<rparr>"

definition ex_remote_fs :: ClipFileSystem where
  "ex_remote_fs = \<lparr>storage = failing_storage, verbose = False, lookupCache = Map.empty,
                   contentCache = ex_cache, contentCacheAvailable = True\<rparr>"

definition ex_dest8 :: slice where
  "ex_dest8 = \<lparr>elems = [1, 2, 3, 4, 5, 6, 7, 8], spare = []\<rparr>"

definition ex_symlink :: ClipNode where
  "ex_symlink = \<lparr>NodeType = SymLinkNode, Path = ''/link'', Attr = ex_attr,
                 Target = ''../elsewhere'', ContentHash = [], DataOffset = 0, DataLen = 0\<rparr>"

definition ex_link_fsnode :: FSNode where
  "ex_link_fsnode = \<lparr>clipNode = ex_symlink, attr = ex_attr, supportsMmap = True\<rparr>"

definition ex_root :: FSNode where
  "ex_root = \<lparr>clipNode = \<lparr>NodeType = DirNode, Path = ''/'', Attr = ex_attr, Target = [],
                            ContentHash = [], DataOffset = 0, DataLen = 0\<rparr>,
              attr = ex_attr, supportsMmap = True\<rparr>"

definition ex_out :: EntryOut where
  "ex_out = \<lparr>out_Attr = ex_attr\<lparr>Ino := 1\<rparr>\<rparr>"

text \<open>What \<open>path.Join\<close> gives for a clean directory path and a plain name.\<close>

definition join_clean :: "string \<Rightarrow> string \<Rightarrow> string" where
  "join_clean d name = (if d = ''/'' then d @ name else d @ ''/'' @ name)"

text \<open>
  \<open>filepath.Base\<close> on Unix: the empty path gives a dot, trailing slashes are dropped, the
  last element is kept, and a path of slashes only gives one slash.
\<close>

definition unix_Base :: "string \<Rightarrow> string" where
  "unix_Base p =
     (if p = [] then ''.''
      else (let p1 = rev (dropWhile (\<lambda>c. c = CHR ''/'') (rev p));
                p2 = rev (takeWhile (\<lambda>c. c \<noteq> CHR ''/'') (rev p1))
            in if p2 = [] then ''/'' else p2))"

definition ex_opts :: StoreS3Options where
  "ex_opts = \<lparr>ArchivePath = ''/tmp/a.clip'', OutputFile = ''a.rclip'', Bucket = ''b'',
              Key = [], CachePath = []\<rparr>"

definition ex_env :: "string \<rightharpoonup> string" where
  "ex_env = [''AWS_REGION'' \<mapsto> ''us-east-1'']"

text \<open>The five-byte file of the spec's fifth scenario, on two backends.\<close>

definition ex_file5 :: FSNode where
  "ex_file5 = \<lparr>clipNode = ex_file\<lparr>Path := ''/five'', DataLen := 5\<rparr>, attr = ex_attr,
               supportsMmap = True\<rparr>"

definition ex_storage5 :: Storage where
  "ex_storage5 = \<lparr>ReadFile = (\<lambda>node dest off. ([1, 2, 3, 4, 5], 5, None)),
                  MetadataGet = (\<lambda>p. None), CachedLocally = True\<rparr>"

definition ex_storage5' :: Storage where
  "ex_storage5' = \<lparr>ReadFile = (\<lambda>node dest off. ([9, 9, 9, 9, 9], 5, None)),
                   MetadataGet = (\<lambda>p. None), CachedLocally = True\<rparr>"

text \<open>The filesystem after \<open>/a.txt\<close> has been looked up once.\<close>

definition ex_inode :: Inode where
  "ex_inode = Inode \<lparr>clipNode = ex_file, attr = ex_attr, supportsMmap = False\<rparr>
                    \<lparr>stable_Mode = 0x81A4, stable_Ino = 7\<rparr>"

definition ex_entry :: lookupCacheEntry where
  "ex_entry = \<lparr>entry_inode = ex_inode, entry_attr = ex_attr\<rparr>"

definition ex_warm_fs :: ClipFileSystem where
  "ex_warm_fs = ex_fs\<lparr>lookupCache := [''/a.txt'' \<mapsto> ex_entry]\<rparr>"

text \<open>
  A \<open>NewInode\<close> that makes a fresh inode and panics on the inode number \<open>2^64 - 1\<close>,
  and a filesystem whose index holds a node \<open>/r\<close> with that number.
\<close>

definition ex_NewInode :: "FSNode \<Rightarrow> StableAttr \<Rightarrow> Inode outcome" where
  "ex_NewInode ops sattr =
     (if stable_Ino sattr = - 1 then Panic else Return (Inode ops sattr))"

definition ex_reserved :: ClipNode where
  "ex_reserved = ex_file\<lparr>Path := ''/r'', Attr := ex_attr\<lparr>Ino := - 1\<rparr>\<rparr>"

definition ex_reserved_fs :: ClipFileSystem where
  "ex_reserved_fs =
     ex_fs\<lparr>storage := ex_storage\<lparr>MetadataGet :=
                (\<lambda>p. if p = ''/r'' then Some ex_reserved else None)\<rparr>\<rparr>"

section \<open>Properties\<close>

lemma zero_fill_replicate: "zero_fill bs = replicate (length bs) 0"
  by (induction bs) simp_all

text \<open>
  C1, as amended. A read on a node at an offset that is not below the node's \<open>DataLen\<close>
  overwrites every element of the destination buffer with zero, calls neither the backend
  nor the content cache, and returns success with the whole zero-filled buffer as its
  data: as many bytes as the buffer is long, each of value zero.
\<close>

theorem Read_beyond_DataLen:
  assumes "sint (DataLen (clipNode n)) \<le> sint off"
  shows "dest_after (Read fs n dest off) = dest\<lparr>elems := replicate (len dest) 0\<rparr>
       \<and> calls (Read fs n dest off) = []
       \<and> ret (Read fs n dest off) = Return (Some (replicate (len dest) 0), OK)
       \<and> bytes_returned (Read fs n dest off) = Some (len dest)"
  using assms
  by (simp add: Read_def Let_def zero_fill_replicate len_def ReadResultData_def
      bytes_returned_def)

theorem Read_beyond_DataLen_witness:
  "sint (DataLen (clipNode ex_fsnode)) \<le> sint (6 :: int64)
   \<and> dest_after (Read ex_fs ex_fsnode ex_dest 6) = \<lparr>elems = [0, 0, 0], spare = []\<rparr>
   \<and> ret (Read ex_fs ex_fsnode ex_dest 6) = Return (Some [0, 0, 0], OK)"
proof -
  have h: "sint (DataLen (clipNode ex_fsnode)) \<le> sint (6 :: int64)"
    by (simp add: ex_fsnode_def ex_file_def)
  show ?thesis
    using h Read_beyond_DataLen [OF h, of ex_fs ex_dest]
    by (simp add: ex_dest_def len_def numeral_3_eq_3)
qed

text \<open>
  C1, as stated, fails: the read of the three-byte buffer at offset 6 of the six-byte
  file returns three bytes, not none.
\<close>

theorem Read_beyond_DataLen_counterexample:
  "sint (DataLen (clipNode ex_fsnode)) \<le> sint (6 :: int64)
   \<and> bytes_returned (Read ex_fs ex_fsnode ex_dest 6) = Some 3
   \<and> bytes_returned (Read ex_fs ex_fsnode ex_dest 6) \<noteq> Some 0"
  by (simp add: Read_def Let_def bytes_returned_def ReadResultData_def ex_fsnode_def
      ex_file_def ex_dest_def)

subsection \<open>What the backend leaves in the buffer\<close>

lemma write_back_append:
  "elems (write_back d ws) @ spare (write_back d ws) = copy_bytes (elems d @ spare d) ws"
  by (simp add: write_back_def Let_def)

lemma cap_write_back: "cap (write_back d ws) = cap d"
  by (simp add: write_back_def Let_def cap_def copy_bytes_def)

lemma slice_upto_write_back:
  "length ws \<le> cap d \<Longrightarrow>
   slice_upto (write_back d ws) (int (length ws)) =
     Some \<lparr>elems = ws, spare = drop (length ws) (elems d @ spare d)\<rparr>"
  by (simp add: slice_upto_def cap_write_back write_back_append)
     (simp add: copy_bytes_def cap_def)

lemma pread_length: "pread a pos k = Some bs \<Longrightarrow> int (length bs) = k"
  by (auto simp: pread_def split: if_splits)

text \<open>
  C4. On a filesystem whose backend is the local backend, a read of a file of size
  \<open>n = DataLen\<close> at an offset \<open>0 \<le> off < n\<close> into a buffer with \<open>off + len(dest) > n\<close>
  returns success with exactly \<open>n - off\<close> bytes: the bytes of the file from \<open>off\<close> to its
  end. The file's byte range lies inside the archive (invariant 4 of the node index).
\<close>

theorem Read_local_clamped:
  assumes st: "storage fs = LocalStorage a idx"
    and off0: "0 \<le> sint off"
    and lt: "sint off < sint (DataLen (clipNode n))"
    and over: "sint (DataLen (clipNode n)) < sint off + int (len dest)"
    and pos: "0 \<le> sint (DataOffset (clipNode n))"
    and inside: "int (contentRegionStart a) + sint (DataOffset (clipNode n))
                   + sint (DataLen (clipNode n)) \<le> int (length (archive a))"
  shows "ret (Read fs n dest off) =
           Return (Some (take (nat (sint (DataLen (clipNode n)) - sint off))
                           (drop (contentRegionStart a + nat (sint (DataOffset (clipNode n)))
                                    + nat (sint off))
                              (archive a))), OK)
       \<and> bytes_returned (Read fs n dest off)
           = Some (nat (sint (DataLen (clipNode n)) - sint off))"
proof -
  let ?node = "clipNode n"
  let ?k = "sint (DataLen ?node) - sint off"
  let ?pos = "int (contentRegionStart a) + sint (DataOffset ?node) + sint off"
  let ?bs = "take (nat ?k) (drop (nat ?pos) (archive a))"
  have nz: "DataLen ?node \<noteq> 0"
    using off0 lt by auto
  have k: "min (int (len dest)) ?k = ?k"
    using over by simp
  have pr: "pread (archive a) ?pos ?k = Some ?bs"
    using off0 lt pos inside by (simp add: pread_def)
  have rf: "ReadFile (storage fs) ?node dest off = (?bs, ?k, None)"
    using lt by (simp add: st LocalStorage_def local_ReadFile_def Let_def k pr)
  have lbs: "int (length ?bs) = ?k"
    using pr by (rule pread_length)
  have "length ?bs \<le> len dest"
    using lbs over by linarith
  then have le: "length ?bs \<le> cap dest"
    by (simp add: len_def cap_def)
  have sl: "slice_upto (write_back dest ?bs) ?k =
              Some \<lparr>elems = ?bs, spare = drop (length ?bs) (elems dest @ spare dest)\<rparr>"
    using slice_upto_write_back [OF le] lbs by simp
  have cl: "CachedLocally (storage fs)"
    by (simp add: st LocalStorage_def)
  have r: "ret (Read fs n dest off) = Return (Some ?bs, OK)"
    using lt nz cl by (simp add: Read_def Let_def rf sl reply_def ReadResultData_def)
  have np: "nat ?pos = contentRegionStart a + nat (sint (DataOffset ?node)) + nat (sint off)"
    using off0 pos by simp
  have "length ?bs = nat ?k"
    using lbs by linarith
  then show ?thesis
    using r by (simp add: bytes_returned_def np)
qed

theorem Read_local_clamped_witness:
  "storage ex_local_fs = LocalStorage ex_archive (\<lambda>p. None)
   \<and> 0 \<le> sint (2 :: int64)
   \<and> sint (2 :: int64) < sint (DataLen (clipNode ex_fsnode))
   \<and> sint (DataLen (clipNode ex_fsnode)) < sint (2 :: int64) + int (len ex_dest8)
   \<and> 0 \<le> sint (DataOffset (clipNode ex_fsnode))
   \<and> int (contentRegionStart ex_archive) + sint (DataOffset (clipNode ex_fsnode))
        + sint (DataLen (clipNode ex_fsnode)) \<le> int (length (archive ex_archive))
   \<and> ret (Read ex_local_fs ex_fsnode ex_dest8 2) = Return (Some [108, 108, 111, 10], OK)
   \<and> bytes_returned (Read ex_local_fs ex_fsnode ex_dest8 2) = Some 4"
proof -
  have st: "storage ex_local_fs = LocalStorage ex_archive (\<lambda>p. None)"
    by (simp add: ex_local_fs_def)
  have off0: "0 \<le> sint (2 :: int64)"
    by simp
  have lt: "sint (2 :: int64) < sint (DataLen (clipNode ex_fsnode))"
    by (simp add: ex_fsnode_def ex_file_def)
  have over: "sint (DataLen (clipNode ex_fsnode)) < sint (2 :: int64) + int (len ex_dest8)"
    by (simp add: ex_fsnode_def ex_file_def ex_dest8_def len_def)
  have pos: "0 \<le> sint (DataOffset (clipNode ex_fsnode))"
    by (simp add: ex_fsnode_def ex_file_def)
  have inside: "int (contentRegionStart ex_archive) + sint (DataOffset (clipNode ex_fsnode))
        + sint (DataLen (clipNode ex_fsnode)) \<le> int (length (archive ex_archive))"
    by (simp add: ex_fsnode_def ex_file_def ex_archive_def hello_def)
  show ?thesis
    using st off0 lt over pos inside Read_local_clamped [OF st off0 lt over pos inside]
    by (simp add: ex_fsnode_def ex_file_def ex_archive_def hello_def)
qed

text \<open>
  C7. Whenever a read calls the backend's \<open>ReadFile\<close> and that call returns an error, the
  read returns \<open>(nil, EIO)\<close>: it does not panic. When the call returns no error, the
  read returns no errno other than \<open>fs.OK\<close>: it replies with \<open>dest[:nRead]\<close>.
\<close>

theorem Read_ReadFile_errno:
  assumes "ReadFileCall node d off' \<in> set (calls (Read fs n dest off))"
  shows "(\<forall>ws nRead err. ReadFile (storage fs) node d off' = (ws, nRead, Some err) \<longrightarrow>
            ret (Read fs n dest off) = Return (None, EIO))
       \<and> (\<forall>ws nRead. ReadFile (storage fs) node d off' = (ws, nRead, None) \<longrightarrow>
            \<not> error_errno (ret (Read fs n dest off))
          \<and> ret (Read fs n dest off) = reply (slice_upto (write_back dest ws) nRead))"
  using assms
  by (auto simp: Read_def Let_def error_errno_def reply_def
      split: if_splits sum.splits prod.splits option.splits)

theorem Read_ReadFile_errno_witness:
  "ReadFileCall ex_file ex_dest 0 \<in> set (calls (Read ex_remote_fs ex_fsnode ex_dest 0))
   \<and> ReadFile (storage ex_remote_fs) ex_file ex_dest 0 = ([], 0, Some IOError)
   \<and> ret (Read ex_remote_fs ex_fsnode ex_dest 0) = Return (None, EIO)
   \<and> ReadFileCall ex_file ex_dest8 0 \<in> set (calls (Read ex_fs ex_fsnode ex_dest8 0))
   \<and> ReadFile (storage ex_fs) ex_file ex_dest8 0 = (hello, 6, None)
   \<and> \<not> error_errno (ret (Read ex_fs ex_fsnode ex_dest8 0))
   \<and> ret (Read ex_fs ex_fsnode ex_dest8 0) = Return (Some hello, OK)"
proof -
  have c1: "ReadFileCall ex_file ex_dest 0 \<in> set (calls (Read ex_remote_fs ex_fsnode ex_dest 0))"
    by (simp add: Read_def Let_def ex_remote_fs_def ex_fsnode_def ex_file_def
        failing_storage_def ex_cache_def)
  have r1: "ReadFile (storage ex_remote_fs) ex_file ex_dest 0 = ([], 0, Some IOError)"
    by (simp add: ex_remote_fs_def failing_storage_def)
  have c2: "ReadFileCall ex_file ex_dest8 0 \<in> set (calls (Read ex_fs ex_fsnode ex_dest8 0))"
    by (simp add: Read_def Let_def ex_fs_def ex_fsnode_def ex_file_def ex_storage_def)
  have r2: "ReadFile (storage ex_fs) ex_file ex_dest8 0 = (hello, 6, None)"
    by (simp add: ex_fs_def ex_storage_def)
  have s: "reply (slice_upto (write_back ex_dest8 hello) 6) = Return (Some hello, OK)"
    by (simp add: reply_def slice_upto_def write_back_def copy_bytes_def cap_def
        ReadResultData_def hello_def ex_dest8_def)
  show ?thesis
    using c1 r1 c2 r2 s Read_ReadFile_errno [OF c1] Read_ReadFile_errno [OF c2]
    by (simp add: error_errno_def)
qed

text \<open>
  C9, as amended. A read reaches the content cache (a \<open>GetContent\<close> call, or the start of
  the task that fills the cache) only when the content cache is available, the node's
  content hash is not empty and the backend does not report \<open>CachedLocally\<close>. In every
  other case the read never touches the content cache and, unless it returns early
  (offset not below \<open>DataLen\<close>, or \<open>DataLen\<close> zero), its one call is the backend's
  \<open>ReadFile\<close> on the node, the buffer and the offset it was given.
\<close>

theorem Read_content_cache_gate:
  "(list_ex touches_content_cache (calls (Read fs n dest off)) \<longrightarrow>
      use_content_cache fs (clipNode n))
 \<and> (\<not> use_content_cache fs (clipNode n) \<longrightarrow>
      calls (Read fs n dest off) =
        (if sint (DataLen (clipNode n)) \<le> sint off \<or> DataLen (clipNode n) = 0 then []
         else [ReadFileCall (clipNode n) dest off]))"
  by (auto simp: Read_def Let_def use_content_cache_def
      split: if_splits sum.splits prod.splits option.splits)

theorem Read_content_cache_gate_witness:
  "list_ex touches_content_cache (calls (Read ex_remote_fs ex_fsnode ex_dest 0))
   \<and> use_content_cache ex_remote_fs (clipNode ex_fsnode)
   \<and> \<not> use_content_cache ex_fs (clipNode ex_fsnode)
   \<and> calls (Read ex_fs ex_fsnode ex_dest8 0) = [ReadFileCall ex_file ex_dest8 0]"
proof -
  have t: "list_ex touches_content_cache (calls (Read ex_remote_fs ex_fsnode ex_dest 0))"
    by (simp add: Read_def Let_def ex_remote_fs_def ex_fsnode_def ex_file_def
        failing_storage_def ex_cache_def)
  have u: "\<not> use_content_cache ex_fs (clipNode ex_fsnode)"
    by (simp add: use_content_cache_def ex_fs_def)
  show ?thesis
    using t u Read_content_cache_gate [of ex_remote_fs ex_fsnode ex_dest 0]
      Read_content_cache_gate [of ex_fs ex_fsnode ex_dest8 0]
    by (simp add: ex_fsnode_def ex_file_def)
qed

text \<open>
  C9, as stated, fails: with no content cache available, the read at offset 6 of the
  six-byte file makes no call at all, so it does not go to the backend's \<open>ReadFile\<close>.
\<close>

theorem Read_content_cache_gate_counterexample:
  "\<not> use_content_cache ex_fs (clipNode ex_fsnode)
   \<and> ReadFileCall (clipNode ex_fsnode) ex_dest 6 \<notin> set (calls (Read ex_fs ex_fsnode ex_dest 6))
   \<and> calls (Read ex_fs ex_fsnode ex_dest 6) = []"
  by (simp add: use_content_cache_def ex_fs_def Read_def Let_def ex_fsnode_def ex_file_def)

text \<open>
  C2. Each of \<open>Create\<close>, \<open>Mkdir\<close>, \<open>Rmdir\<close>, \<open>Unlink\<close> and \<open>Rename\<close> returns
  \<open>EROFS\<close> on every node and for every argument, with no inode, no file handle and no
  flags, and leaves the filesystem, the node and the structures behind its pointer
  arguments as they were.
\<close>

theorem write_ops_EROFS:
  "Create fs n name flags mode out = (fs, n, out, (None, None, 0, EROFS))
 \<and> Mkdir fs n name mode out = (fs, n, out, (None, EROFS))
 \<and> Rmdir fs n name = (fs, n, EROFS)
 \<and> Unlink fs n name = (fs, n, EROFS)
 \<and> Rename fs n oldName newParent newName flags = (fs, n, newParent, EROFS)"
  by (simp add: Create_def Mkdir_def Rmdir_def Unlink_def Rename_def)

subsection \<open>Symbolic links\<close>

lemma string_of_bytes_of_string: "string_of_bytes (bytes_of_string t) = t"
  by (induction t) (simp_all add: string_of_bytes_def bytes_of_string_def unat_of_nat)

text \<open>
  C3. On a node of type SymLink, \<open>Readlink\<close> returns success with the bytes of the stored
  target, whatever the target is (the bytes give the stored string back); on every other
  node it returns \<open>EINVAL\<close> and no data; and it returns \<open>EINVAL\<close> exactly when the node
  is not a SymLink.
\<close>

theorem Readlink_target:
  "(NodeType (clipNode n) = SymLinkNode \<longrightarrow>
      Readlink n = (Some (bytes_of_string (Target (clipNode n))), OK)
    \<and> string_of_bytes (bytes_of_string (Target (clipNode n))) = Target (clipNode n))
 \<and> (NodeType (clipNode n) \<noteq> SymLinkNode \<longrightarrow> Readlink n = (None, EINVAL))
 \<and> (snd (Readlink n) = EINVAL \<longleftrightarrow> NodeType (clipNode n) \<noteq> SymLinkNode)"
  by (simp add: Readlink_def Let_def string_of_bytes_of_string)

theorem Readlink_target_witness:
  "NodeType (clipNode ex_link_fsnode) = SymLinkNode
   \<and> Readlink ex_link_fsnode = (Some (bytes_of_string ''../elsewhere''), OK)
   \<and> NodeType (clipNode ex_fsnode) \<noteq> SymLinkNode
   \<and> Readlink ex_fsnode = (None, EINVAL)"
proof -
  have a: "NodeType (clipNode ex_link_fsnode) = SymLinkNode"
    by (simp add: ex_link_fsnode_def ex_symlink_def)
  have b: "NodeType (clipNode ex_fsnode) \<noteq> SymLinkNode"
    by (simp add: ex_fsnode_def ex_file_def)
  have t: "Target (clipNode ex_link_fsnode) = ''../elsewhere''"
    by (simp add: ex_link_fsnode_def ex_symlink_def)
  show ?thesis
    using a b Readlink_target [of ex_link_fsnode] Readlink_target [of ex_fsnode]
    by (simp add: t)
qed

subsection \<open>Lookup\<close>

text \<open>
  C5. \<open>Lookup\<close> on a parent and a name forms the child path by joining the parent's path
  with the name and asks the lookup cache first. On a hit it answers from the cache entry
  and asks nothing else. On a miss it asks the metadata index: when the path is absent
  there it returns \<open>ENOENT\<close> and changes nothing (and \<open>ENOENT\<close> is returned in that case
  only); when the path is present it fills the attributes and asks go-fuse for an inode
  of the child, and when go-fuse gives one it stores the inode and the attributes in the
  cache under the child path and returns the inode. When go-fuse panics instead, nothing
  is returned and nothing is cached. After every lookup that returns success the cache
  holds the returned inode under the child path.
\<close>

theorem Lookup_cache_then_index:
  "(let childPath = J (Path (clipNode n)) name; r = Lookup J NI fs n name out in
     hd (lookup_calls r) = LookupCacheGet childPath
   \<and> (\<forall>entry. lookupCache fs childPath = Some entry \<longrightarrow>
         r = \<lparr>fs_after = fs, out_after = out\<lparr>out_Attr := entry_attr entry\<rparr>,
              lookup_calls = [LookupCacheGet childPath],
              lookup_ret = Return (Some (entry_inode entry), OK)\<rparr>)
   \<and> (lookupCache fs childPath = None \<longrightarrow>
         take 2 (lookup_calls r) = [LookupCacheGet childPath, MetadataGetCall childPath])
   \<and> (lookupCache fs childPath = None \<and> MetadataGet (storage fs) childPath = None \<longrightarrow>
         r = \<lparr>fs_after = fs, out_after = out,
              lookup_calls = [LookupCacheGet childPath, MetadataGetCall childPath],
              lookup_ret = Return (None, ENOENT)\<rparr>)
   \<and> (\<forall>child i. lookupCache fs childPath = None
                \<and> MetadataGet (storage fs) childPath = Some child
                \<and> NI \<lparr>clipNode = child, attr = Attr child, supportsMmap = False\<rparr>
                      \<lparr>stable_Mode = Mode (Attr child), stable_Ino = Ino (Attr child)\<rparr>
                    = Return i \<longrightarrow>
         lookup_calls r =
           [LookupCacheGet childPath, MetadataGetCall childPath,
            NewInodeCall \<lparr>clipNode = child, attr = Attr child, supportsMmap = False\<rparr>
              \<lparr>stable_Mode = Mode (Attr child), stable_Ino = Ino (Attr child)\<rparr>,
            LookupCachePut childPath]
       \<and> lookup_ret r = Return (Some i, OK)
       \<and> out_after r = out\<lparr>out_Attr := Attr child\<rparr>
       \<and> fs_after r = fs\<lparr>lookupCache := (lookupCache fs)
            (childPath \<mapsto> \<lparr>entry_inode = i, entry_attr = Attr child\<rparr>)\<rparr>)
   \<and> (\<forall>child. lookupCache fs childPath = None
                \<and> MetadataGet (storage fs) childPath = Some child
                \<and> NI \<lparr>clipNode = child, attr = Attr child, supportsMmap = False\<rparr>
                      \<lparr>stable_Mode = Mode (Attr child), stable_Ino = Ino (Attr child)\<rparr>
                    = Panic \<longrightarrow>
         lookup_ret r = Panic
       \<and> fs_after r = fs
       \<and> out_after r = out\<lparr>out_Attr := Attr child\<rparr>
       \<and> LookupCachePut childPath \<notin> set (lookup_calls r))
   \<and> (lookup_errno r = Some ENOENT \<longleftrightarrow>
         lookupCache fs childPath = None \<and> MetadataGet (storage fs) childPath = None)
   \<and> (lookup_errno r = Some OK \<longrightarrow>
         (\<exists>i. lookup_ret r = Return (Some i, OK)
            \<and> lookupCache (fs_after r) childPath
                = Some \<lparr>entry_inode = i, entry_attr = out_Attr (out_after r)\<rparr>)))"
  by (auto simp: Lookup_def Let_def lookup_errno_def split: option.splits outcome.splits)

theorem Lookup_cache_then_index_witness:
  "lookupCache ex_fs (join_clean (Path (clipNode ex_root)) ''a.txt'') = None
   \<and> MetadataGet (storage ex_fs) (join_clean (Path (clipNode ex_root)) ''a.txt'') = Some ex_file
   \<and> ex_NewInode \<lparr>clipNode = ex_file, attr = Attr ex_file, supportsMmap = False\<rparr>
        \<lparr>stable_Mode = Mode (Attr ex_file), stable_Ino = Ino (Attr ex_file)\<rparr> = Return ex_inode
   \<and> lookup_errno (Lookup join_clean ex_NewInode ex_fs ex_root ''a.txt'' ex_out) = Some OK
   \<and> lookup_ret (Lookup join_clean ex_NewInode ex_fs ex_root ''a.txt'' ex_out)
       = Return (Some ex_inode, OK)
   \<and> lookupCache (fs_after (Lookup join_clean ex_NewInode ex_fs ex_root ''a.txt'' ex_out))
        ''/a.txt'' = Some ex_entry
   \<and> lookupCache ex_fs (join_clean (Path (clipNode ex_root)) ''x'') = None
   \<and> MetadataGet (storage ex_fs) (join_clean (Path (clipNode ex_root)) ''x'') = None
   \<and> lookup_ret (Lookup join_clean ex_NewInode ex_fs ex_root ''x'' ex_out)
       = Return (None, ENOENT)
   \<and> lookupCache ex_warm_fs (join_clean (Path (clipNode ex_root)) ''a.txt'') = Some ex_entry
   \<and> Lookup join_clean ex_NewInode ex_warm_fs ex_root ''a.txt'' ex_out
       = \<lparr>fs_after = ex_warm_fs, out_after = ex_out\<lparr>out_Attr := ex_attr\<rparr>,
          lookup_calls = [LookupCacheGet ''/a.txt''],
          lookup_ret = Return (Some ex_inode, OK)\<rparr>
   \<and> lookupCache ex_reserved_fs (join_clean (Path (clipNode ex_root)) ''r'') = None
   \<and> MetadataGet (storage ex_reserved_fs) (join_clean (Path (clipNode ex_root)) ''r'')
       = Some ex_reserved
   \<and> ex_NewInode \<lparr>clipNode = ex_reserved, attr = Attr ex_reserved, supportsMmap = False\<rparr>
        \<lparr>stable_Mode = Mode (Attr ex_reserved), stable_Ino = Ino (Attr ex_reserved)\<rparr> = Panic
   \<and> lookup_ret (Lookup join_clean ex_NewInode ex_reserved_fs ex_root ''r'' ex_out) = Panic
   \<and> fs_after (Lookup join_clean ex_NewInode ex_reserved_fs ex_root ''r'' ex_out)
       = ex_reserved_fs"
proof -
  have p: "join_clean (Path (clipNode ex_root)) ''a.txt'' = ''/a.txt''"
      "join_clean (Path (clipNode ex_root)) ''x'' = ''/x''"
      "join_clean (Path (clipNode ex_root)) ''r'' = ''/r''"
    by (simp_all add: join_clean_def ex_root_def)
  have c: "lookupCache ex_fs ''/a.txt'' = None" "lookupCache ex_fs ''/x'' = None"
      "lookupCache ex_reserved_fs ''/r'' = None"
    by (simp_all add: ex_fs_def ex_reserved_fs_def)
  have m: "MetadataGet (storage ex_fs) ''/a.txt'' = Some ex_file"
      "MetadataGet (storage ex_fs) ''/x'' = None"
      "MetadataGet (storage ex_reserved_fs) ''/r'' = Some ex_reserved"
    by (simp_all add: ex_fs_def ex_storage_def ex_reserved_fs_def)
  have a: "Attr ex_file = ex_attr" "Mode ex_attr = 0x81A4" "Ino ex_attr = 7"
    by (simp_all add: ex_file_def ex_attr_def)
  have ni: "ex_NewInode \<lparr>clipNode = ex_file, attr = Attr ex_file, supportsMmap = False\<rparr>
        \<lparr>stable_Mode = Mode (Attr ex_file), stable_Ino = Ino (Attr ex_file)\<rparr> = Return ex_inode"
    by (simp add: ex_NewInode_def ex_inode_def a)
  have np: "ex_NewInode \<lparr>clipNode = ex_reserved, attr = Attr ex_reserved, supportsMmap = False\<rparr>
        \<lparr>stable_Mode = Mode (Attr ex_reserved), stable_Ino = Ino (Attr ex_reserved)\<rparr> = Panic"
    by (simp add: ex_NewInode_def ex_reserved_def)
  have w: "lookupCache ex_warm_fs ''/a.txt'' = Some ex_entry"
    by (simp add: ex_warm_fs_def)
  have e: "entry_attr ex_entry = ex_attr" "entry_inode ex_entry = ex_inode"
    by (simp_all add: ex_entry_def)
  have h: "lookup_errno (Lookup join_clean ex_NewInode ex_fs ex_root ''a.txt'' ex_out) = Some OK"
    by (simp add: Lookup_def Let_def lookup_errno_def p c m ni)
  show ?thesis
    using h ni np
      Lookup_cache_then_index [of join_clean ex_root "''a.txt''" ex_NewInode ex_fs ex_out]
      Lookup_cache_then_index [of join_clean ex_root "''x''" ex_NewInode ex_fs ex_out]
      Lookup_cache_then_index [of join_clean ex_root "''a.txt''" ex_NewInode ex_warm_fs ex_out]
      Lookup_cache_then_index [of join_clean ex_root "''r''" ex_NewInode ex_reserved_fs ex_out]
    by (simp add: Let_def p c m w e a ex_entry_def)
qed

subsection \<open>Open\<close>

lemma direct_io_bits: "(flags AND MAP_PRIVATE \<noteq> 0 \<or> flags AND MAP_SHARED \<noteq> 0) \<longleftrightarrow> flags AND 3 \<noteq> (0::uint32)"
proof -
  have "(3::uint32) = 2 OR 1" by simp
  then have "flags AND 3 = (flags AND 2) OR (flags AND 1)"
    by (simp only: bit.conj_disj_distrib)
  then show ?thesis
    by (auto simp: MAP_PRIVATE_def MAP_SHARED_def or_eq_0_iff)
qed

text \<open>
  C8. \<open>Open\<close> returns \<open>fs.OK\<close> and no file handle on every node and for every value of
  the flags. The flags it returns are \<open>FOPEN_DIRECT_IO\<close> exactly when the flags it is
  given indicate memory mapping, which the code reads off the \<open>MAP_PRIVATE\<close> and
  \<open>MAP_SHARED\<close> bits (one of the two lowest bits is set), and zero for every other value.
\<close>

theorem Open_direct_io:
  "Open n flags =
     (None, (if flags AND MAP_PRIVATE \<noteq> 0 \<or> flags AND MAP_SHARED \<noteq> 0
             then FOPEN_DIRECT_IO else 0), OK)
 \<and> FOPEN_DIRECT_IO \<noteq> 0
 \<and> (fst (snd (Open n flags)) AND FOPEN_DIRECT_IO \<noteq> 0 \<longleftrightarrow> flags AND 3 \<noteq> 0)
 \<and> snd (snd (Open n flags)) = OK"
  using direct_io_bits [of flags]
  by (simp add: Open_def Let_def FOPEN_DIRECT_IO_def)

theorem Open_direct_io_witness:
  "(2 :: uint32) AND MAP_PRIVATE \<noteq> 0
   \<and> Open ex_fsnode 2 = (None, FOPEN_DIRECT_IO, OK)
   \<and> Open ex_fsnode 1 = (None, FOPEN_DIRECT_IO, OK)
   \<and> (0x8000 :: uint32) AND MAP_PRIVATE = 0
   \<and> (0x8000 :: uint32) AND MAP_SHARED = 0
   \<and> Open ex_fsnode 0x8000 = (None, 0, OK)"
proof -
  have a: "(2 :: uint32) AND MAP_PRIVATE \<noteq> 0" "(1 :: uint32) AND MAP_SHARED \<noteq> 0"
    by (simp_all add: MAP_PRIVATE_def MAP_SHARED_def)
  have b: "(0x8000 :: uint32) AND MAP_PRIVATE = 0" "(0x8000 :: uint32) AND MAP_SHARED = 0"
    by (simp_all add: MAP_PRIVATE_def MAP_SHARED_def)
  show ?thesis
    using a b Open_direct_io [of ex_fsnode 2] Open_direct_io [of ex_fsnode 1]
      Open_direct_io [of ex_fsnode "0x8000"]
    by simp
qed

subsection \<open>StoreS3\<close>

text \<open>
  C10. \<open>StoreS3\<close> builds the remote archiver from the bucket of its options, the region
  read from the environment variable \<open>AWS_REGION\<close>, and a key that is the base name of
  \<open>ArchivePath\<close> when the \<open>Key\<close> option is the empty string and the \<open>Key\<close> option
  itself otherwise; it then creates the remote archive from \<open>ArchivePath\<close> and
  \<open>OutputFile\<close> and returns the first error.
\<close>

theorem StoreS3_storageInfo:
  "StoreS3 B env mk cr opts =
     (case mk \<lparr>s3_Bucket = Bucket opts,
               s3_Key = (if Key opts = [] then B (ArchivePath opts) else Key opts),
               s3_Region = Getenv env ''AWS_REGION''\<rparr> of
        Inl err \<Rightarrow> Some err
      | Inr a \<Rightarrow> cr a (ArchivePath opts) (OutputFile opts))"
  by (simp add: StoreS3_def Let_def split: sum.splits option.splits)

theorem StoreS3_storageInfo_witness:
  "StoreS3 unix_Base ex_env (\<lambda>info. Inl (if info = \<lparr>s3_Bucket = ''b'', s3_Key = ''a.clip'', s3_Region = ''us-east-1''\<rparr> then IOError else BackendError)) (\<lambda>a x y. None) ex_opts = Some IOError"
  using StoreS3_storageInfo [of unix_Base ex_env "(\<lambda>info. Inl (if info = \<lparr>s3_Bucket = ''b'', s3_Key = ''a.clip'', s3_Region = ''us-east-1''\<rparr> then IOError else BackendError))" "(\<lambda>a x y. None)" ex_opts]
  by (simp add: ex_opts_def ex_env_def Getenv_def unix_Base_def)

subsection \<open>Mmap\<close>

lemma length_copy_bytes: "length (copy_bytes dst src) = length dst"
  by (simp add: copy_bytes_def)

lemma Mmap_padded:
  assumes nn: "0 \<le> sint (DataLen (clipNode n))"
    and over: "sint (DataLen (clipNode n)) < sint (off + sz)"
  shows "Mmap fs n off sz flags =
     (case snd (snd (ReadFile (storage fs) (clipNode n)
                       \<lparr>elems = replicate (nat (sint (DataLen (clipNode n)))) 0,
                        spare = replicate (nat (sint (off + sz)) - nat (sint (DataLen (clipNode n)))) 0\<rparr> 0)) of
        Some err \<Rightarrow> Return (False, Some err)
      | None \<Rightarrow> Return (True, None))"
proof -
  let ?k = "sint (DataLen (clipNode n))"
  let ?p = "sint (off + sz)"
  let ?w = "\<lparr>elems = replicate (nat ?k) 0, spare = replicate (nat ?p - nat ?k) (0::byte)\<rparr>"
  have mk: "make_bytes ?p = Some \<lparr>elems = replicate (nat ?p) 0, spare = []\<rparr>"
    using nn over by (simp add: make_bytes_def)
  have sl: "slice_upto \<lparr>elems = replicate (nat ?p) 0, spare = []\<rparr> ?k = Some ?w"
    using nn over by (simp add: slice_upto_def cap_def min_def)
  have st: "\<And>ws. store_at \<lparr>elems = elems (write_back ?w ws) @ spare (write_back ?w ws), spare = []\<rparr> ?k 0 \<noteq> None"
    using nn over by (simp add: store_at_def len_def write_back_append length_copy_bytes)
  obtain ws nRead e where rf: "ReadFile (storage fs) (clipNode n) ?w 0 = (ws, nRead, e)"
    by (cases "ReadFile (storage fs) (clipNode n) ?w 0") auto
  obtain b where sb: "store_at \<lparr>elems = elems (write_back ?w ws) @ spare (write_back ?w ws), spare = []\<rparr> ?k 0 = Some b"
    using st [of ws] by auto
  show ?thesis
  proof (cases e)
    case None
    then show ?thesis
      using over by (simp add: Mmap_def Let_def mk sl rf sb)
  next
    case (Some err)
    then show ?thesis
      using over by (simp add: Mmap_def Let_def mk sl rf)
  qed
qed

text \<open>
  C6 does not hold of this code. \<open>Mmap\<close> of the five-byte file with offset 0 and size 4096
  builds the padded buffer, lets the backend fill its first five bytes, and then returns
  \<open>(true, nil)\<close> alone: the buffer is dropped, and the result is the same whatever bytes
  the file holds. When the backend's \<open>ReadFile\<close> fails, \<open>Mmap\<close> fails with that error.
\<close>

theorem Mmap_discards_padded_buffer:
  "Mmap (ex_fs\<lparr>storage := ex_storage5\<rparr>) ex_file5 0 4096 0 = Return (True, None)
 \<and> Mmap (ex_fs\<lparr>storage := ex_storage5'\<rparr>) ex_file5 0 4096 0 = Return (True, None)
 \<and> Mmap (ex_fs\<lparr>storage := failing_storage\<rparr>) ex_file5 0 4096 0 = Return (False, Some IOError)"
proof -
  have nn: "0 \<le> sint (DataLen (clipNode ex_file5))"
    by (simp add: ex_file5_def)
  have over: "sint (DataLen (clipNode ex_file5)) < sint (0 + 4096 :: int64)"
    by (simp add: ex_file5_def)
  show ?thesis
    by (simp add: Mmap_padded [OF nn over] ex_storage5_def ex_storage5'_def failing_storage_def)
qed

end
